theory Spec2Isabelle
  imports Main
begin

section \<open>The TSCE chat-completion client\<close>

text \<open>
  A shallow embedding of \<^verbatim>\<open>autogen_ext/models/tsce/__init__.py\<close>: the class
  \<^verbatim>\<open>TSCEChatCompletionClient\<close>, which turns the framework's messages into role/content
  dictionaries, calls the TSCE harness on them and wraps the reply as a
  \<^verbatim>\<open>CreateResult\<close> with whitespace-token usage counts.

  Conventions of the model.
  \<^item> A Python \<^verbatim>\<open>str\<close> is a \<open>string\<close>; a \<open>char\<close> stands for the code point of the
    same number, so the strings covered are those over code points below 256.
  \<^item> A Python \<^verbatim>\<open>int\<close> is an \<open>int\<close>.
  \<^item> A method that can raise returns \<open>'e exception + 'a\<close> (\<open>Inl\<close> the exception)
    together with the instance as the method left it.
\<close>

subsection \<open>Strings: \<^verbatim>\<open>str.split()\<close>\<close>

text \<open>
  \<^verbatim>\<open>str.isspace\<close> on one character, for the code points below 256: the ASCII
  whitespace U+0009..U+000D, U+001C..U+001F and U+0020, then U+0085 and U+00A0.
\<close>

definition isspace :: "char \<Rightarrow> bool" where
  "isspace c =
     (let n = (of_char c :: nat)
      in (9 \<le> n \<and> n \<le> 13) \<or> (28 \<le> n \<and> n \<le> 32) \<or> n = 133 \<or> n = 160)"

text \<open>
  \<^verbatim>\<open>s.split()\<close> with no separator: the maximal runs of non-whitespace characters,
  in order; no empty string is produced. \<open>split_from cur s\<close> scans \<open>s\<close> with the
  characters of the token read so far in \<open>cur\<close>.
\<close>

fun split_from :: "string \<Rightarrow> string \<Rightarrow> string list" where
  "split_from cur [] = (if cur = [] then [] else [cur])"
| "split_from cur (c # cs) =
     (if isspace c
      then (if cur = [] then split_from [] cs else cur # split_from [] cs)
      else split_from (cur @ [c]) cs)"

definition split :: "string \<Rightarrow> string list" where
  "split s = split_from [] s"

subsection \<open>The framework's types\<close>

text \<open>
  Modelled from the spec: the message classes of \<^verbatim>\<open>autogen_core.models\<close> are imported,
  not defined, by the module. A message is one of four tagged variants; the content of a
  system message is a string, the content of a user or assistant message is a string or
  something else (\<open>Other\<close>, whose type is a parameter), and a tool-result message
  carries no text. Only the \<^verbatim>\<open>content\<close> attribute is read by the client.
\<close>

datatype 'x str_or = Str string | Other 'x

datatype ('u, 'a, 'f) LLMMessage =
    SystemMessage string
  | UserMessage "'u str_or"
  | AssistantMessage "'a str_or"
  | FunctionExecutionResultMessage 'f

text \<open>
  Modelled from the spec: \<^verbatim>\<open>RequestUsage\<close>, \<^verbatim>\<open>ModelInfo\<close> and \<^verbatim>\<open>CreateResult\<close> of
  \<^verbatim>\<open>autogen_core.models\<close>, with the fields the client sets (the keys of
  \<^verbatim>\<open>ModelInfo\<close> carry the prefix \<open>info_\<close>).
\<close>

record RequestUsage =
  prompt_tokens :: int
  completion_tokens :: int

record ModelInfo =
  info_vision :: bool
  info_function_calling :: bool
  info_json_output :: bool
  info_family :: string
  info_structured_output :: bool

record CreateResult =
  finish_reason :: string
  content :: string
  usage :: RequestUsage
  cached :: bool

text \<open>What \<^verbatim>\<open>create_stream\<close> yields: \<^verbatim>\<open>Union[str, CreateResult]\<close>.\<close>

datatype stream_item = StrItem string | ResultItem CreateResult

subsection \<open>Exceptions\<close>

text \<open>
  What a call can raise. \<^verbatim>\<open>StopIteration\<close> and \<^verbatim>\<open>StopAsyncIteration\<close> (an instance
  of the class or of a subclass) and \<^verbatim>\<open>RuntimeError\<close> with its message are told
  apart, since the interpreter treats them specially at the exit of a coroutine or of
  an asynchronous generator; every other exception is a value of the parameter \<open>'e\<close>.
\<close>

datatype 'e exception =
    StopIteration
  | StopAsyncIteration
  | RuntimeError string
  | OtherException 'e

text \<open>
  \<^verbatim>\<open>create\<close> is an \<^verbatim>\<open>async def\<close>: a \<^verbatim>\<open>StopIteration\<close> that would leave the body of
  a coroutine is replaced by a \<^verbatim>\<open>RuntimeError\<close> (PEP 479); any other exception leaves
  it as it is.
\<close>

fun coroutine_raise :: "'e exception \<Rightarrow> 'e exception" where
  "coroutine_raise StopIteration = RuntimeError ''coroutine raised StopIteration''"
| "coroutine_raise e = e"

text \<open>
  \<^verbatim>\<open>create_stream\<close> is an asynchronous generator: a \<^verbatim>\<open>StopIteration\<close> or a
  \<^verbatim>\<open>StopAsyncIteration\<close> that would leave its body is replaced by a
  \<^verbatim>\<open>RuntimeError\<close>; any other exception leaves it as it is.
\<close>

fun async_generator_raise :: "'e exception \<Rightarrow> 'e exception" where
  "async_generator_raise StopIteration =
     RuntimeError ''async generator raised StopIteration''"
| "async_generator_raise StopAsyncIteration =
     RuntimeError ''async generator raised StopAsyncIteration''"
| "async_generator_raise e = e"

subsection \<open>The harness\<close>

text \<open>
  Modelled from the spec: \<^verbatim>\<open>TSCEChat\<close> (\<^verbatim>\<open>harness/tsce_chat.py\<close>) is an opaque
  collaborator, called with the list of role/content dictionaries and returning an
  object with a textual \<^verbatim>\<open>content\<close> attribute, or raising. Its constructor and its
  \<^verbatim>\<open>__call__\<close> are parameters of the model: a handle of type \<open>'h\<close> is the harness
  object's state, and a call maps the handle and the chat to a reply or an exception
  \<open>'e\<close>, and to the handle afterwards.
\<close>

record TSCEReply =
  reply_content :: string

type_synonym chat_pair = "string \<rightharpoonup> string"

type_synonym ('h, 'e) harness_call =
  "'h \<Rightarrow> chat_pair list \<Rightarrow> ('e exception + TSCEReply) \<times> 'h"

subsection \<open>The client\<close>

record 'h TSCEChatCompletionClient =
  self_tsce :: 'h
  self_model_info :: ModelInfo
  self_cur_usage :: RequestUsage
  self_total_usage :: RequestUsage

text \<open>\<^verbatim>\<open>__init__\<close>; \<open>TSCEChat\<close> is the harness's constructor.\<close>

definition init :: "(string option \<Rightarrow> 'h) \<Rightarrow> string option \<Rightarrow> 'h TSCEChatCompletionClient" where
  "init TSCEChat model =
     \<lparr> self_tsce = TSCEChat model,
       self_model_info =
         \<lparr> info_vision = False, info_function_calling = False, info_json_output = False,
           info_family = ''unknown'', info_structured_output = False \<rparr>,
       self_cur_usage = \<lparr> prompt_tokens = 0, completion_tokens = 0 \<rparr>,
       self_total_usage = \<lparr> prompt_tokens = 0, completion_tokens = 0 \<rparr> \<rparr>"

text \<open>
  \<^verbatim>\<open>_convert_messages\<close>: the body of the loop, on the list \<open>chat\<close> built so far and
  the message \<open>m\<close>, then the loop from the empty list.
\<close>

fun convert_step :: "chat_pair list \<Rightarrow> ('u, 'a, 'f) LLMMessage \<Rightarrow> chat_pair list" where
  "convert_step chat (SystemMessage c) =
     chat @ [[''role'' \<mapsto> ''system'', ''content'' \<mapsto> c]]"
| "convert_step chat (UserMessage c) =
     (let content = (case c of Str s \<Rightarrow> s | Other _ \<Rightarrow> '''')
      in chat @ [[''role'' \<mapsto> ''user'', ''content'' \<mapsto> content]])"
| "convert_step chat (AssistantMessage c) =
     (case c of
        Str s \<Rightarrow> chat @ [[''role'' \<mapsto> ''assistant'', ''content'' \<mapsto> s]]
      | Other _ \<Rightarrow> chat)"
| "convert_step chat (FunctionExecutionResultMessage _) = chat"

definition convert_messages :: "('u, 'a, 'f) LLMMessage list \<Rightarrow> chat_pair list" where
  "convert_messages messages = foldl convert_step [] messages"

text \<open>
  \<^verbatim>\<open>create\<close>. The keyword arguments \<open>tools\<close>, \<open>json_output\<close>,
  \<open>extra_create_args\<close> and \<open>cancellation_token\<close> are arguments of the model too.
  When the harness raises, the exception leaves the body at the call, with the
  instance as it is then, and leaves the coroutine as \<open>coroutine_raise\<close> says.
\<close>

definition create ::
  "('h, 'e) harness_call \<Rightarrow> 'h TSCEChatCompletionClient \<Rightarrow> ('u, 'a, 'f) LLMMessage list \<Rightarrow>
   't list \<Rightarrow> 'j option \<Rightarrow> (string \<rightharpoonup> 'x) \<Rightarrow> 'c option \<Rightarrow>
   ('e exception + CreateResult) \<times> 'h TSCEChatCompletionClient" where
  "create call self messages tools json_output extra_create_args cancellation_token =
     (let chat = convert_messages messages;
          (r, h) = call (self_tsce self) chat;
          self = self\<lparr>self_tsce := h\<rparr>
      in case r of
           Inl e \<Rightarrow> (Inl (coroutine_raise e), self)
         | Inr reply \<Rightarrow>
             (let content = reply_content reply;
                  tokens = split content;
                  self = self\<lparr>self_cur_usage :=
                           \<lparr> prompt_tokens = 0, completion_tokens = int (length tokens) \<rparr>\<rparr>;
                  self = self\<lparr>self_total_usage := (self_total_usage self)
                           \<lparr>prompt_tokens := prompt_tokens (self_total_usage self)
                                             + prompt_tokens (self_cur_usage self)\<rparr>\<rparr>;
                  self = self\<lparr>self_total_usage := (self_total_usage self)
                           \<lparr>completion_tokens := completion_tokens (self_total_usage self)
                                                 + completion_tokens (self_cur_usage self)\<rparr>\<rparr>
              in (Inr \<lparr> finish_reason = ''stop'', content = content,
                        usage = self_cur_usage self, cached = False \<rparr>,
                  self)))"

text \<open>
  \<^verbatim>\<open>create_stream\<close>, consumed to its end: the list of what the generator yields. The
  call of \<^verbatim>\<open>create\<close> comes before the first \<^verbatim>\<open>yield\<close>, so an exception of the
  harness leaves nothing yielded, and leaves the generator as
  \<open>async_generator_raise\<close> says.
\<close>

definition create_stream ::
  "('h, 'e) harness_call \<Rightarrow> 'h TSCEChatCompletionClient \<Rightarrow> ('u, 'a, 'f) LLMMessage list \<Rightarrow>
   't list \<Rightarrow> 'j option \<Rightarrow> (string \<rightharpoonup> 'x) \<Rightarrow> 'c option \<Rightarrow>
   ('e exception + stream_item list) \<times> 'h TSCEChatCompletionClient" where
  "create_stream call self messages tools json_output extra_create_args cancellation_token =
     (case create call self messages tools json_output extra_create_args cancellation_token of
        (Inl e, self) \<Rightarrow> (Inl (async_generator_raise e), self)
      | (Inr result, self) \<Rightarrow>
          (Inr (map (\<lambda>(i, token).
                       if int i < int (length (split (content result))) - 1
                       then StrItem (token @ '' '')
                       else StrItem token)
                    (enumerate 0 (split (content result)))
                @ [ResultItem result]),
           self))"

definition actual_usage :: "'h TSCEChatCompletionClient \<Rightarrow> RequestUsage" where
  "actual_usage self = self_cur_usage self"

definition total_usage :: "'h TSCEChatCompletionClient \<Rightarrow> RequestUsage" where
  "total_usage self = self_total_usage self"

definition count_tokens ::
  "'h TSCEChatCompletionClient \<Rightarrow> ('u, 'a, 'f) LLMMessage list \<Rightarrow> 't list \<Rightarrow> int" where
  "count_tokens self messages tools = 0"

definition remaining_tokens ::
  "'h TSCEChatCompletionClient \<Rightarrow> ('u, 'a, 'f) LLMMessage list \<Rightarrow> 't list \<Rightarrow> int" where
  "remaining_tokens self messages tools = 0"

subsection \<open>Specification-level notions\<close>

text \<open>
  \<^verbatim>\<open>sep.join(ts)\<close>, used to say what the chunks of \<^verbatim>\<open>create_stream\<close> add up to.
\<close>

fun join :: "string \<Rightarrow> string list \<Rightarrow> string" where
  "join sep [] = []"
| "join sep [t] = t"
| "join sep (t # u # us) = t @ sep @ join sep (u # us)"

text \<open>
  The chunks as the specification words them: every token followed by one space,
  except the last token, which is left as it is.
\<close>

fun spec_chunks :: "string list \<Rightarrow> string list" where
  "spec_chunks [] = []"
| "spec_chunks [t] = [t]"
| "spec_chunks (t # u # us) = (t @ '' '') # spec_chunks (u # us)"

text \<open>The string elements among what a stream yielded, in order.\<close>

fun str_items :: "stream_item list \<Rightarrow> string list" where
  "str_items [] = []"
| "str_items (StrItem s # xs) = s # str_items xs"
| "str_items (ResultItem r # xs) = str_items xs"

text \<open>
  A harness for the examples: the handle is the list of the replies still to give, the
  constructor takes that list, and a call answers with the next reply, or raises
  \<^verbatim>\<open>StopIteration\<close> when none is left.
\<close>

definition scripted_TSCEChat :: "string list \<Rightarrow> string option \<Rightarrow> string list" where
  "scripted_TSCEChat script model = script"

fun scripted_call :: "(string list, unit) harness_call" where
  "scripted_call [] chat = (Inl StopIteration, [])"
| "scripted_call (t # ts) chat = (Inr \<lparr> reply_content = t \<rparr>, ts)"

text \<open>
  The example of the specification: a system message and a user message, a client whose
  harness answers \<^verbatim>\<open>Hello there\<close> first, and the calls with every keyword argument at
  its default.
\<close>

definition example_messages :: "(unit, unit, unit) LLMMessage list" where
  "example_messages = [SystemMessage ''Be terse'', UserMessage (Str ''Hi'')]"

definition example_client :: "string list TSCEChatCompletionClient" where
  "example_client = init (scripted_TSCEChat [''Hello there'', ''a  b'']) None"

abbreviation (input) example_create ::
  "(string list, unit) harness_call \<Rightarrow> string list TSCEChatCompletionClient \<Rightarrow>
   (unit, unit, unit) LLMMessage list \<Rightarrow>
   (unit exception + CreateResult) \<times> string list TSCEChatCompletionClient" where
  "example_create call self ms \<equiv>
     create call self ms ([] :: unit list) (None :: unit option)
       (Map.empty :: string \<rightharpoonup> unit) (None :: unit option)"

abbreviation (input) example_create_stream ::
  "(string list, unit) harness_call \<Rightarrow> string list TSCEChatCompletionClient \<Rightarrow>
   (unit, unit, unit) LLMMessage list \<Rightarrow>
   (unit exception + stream_item list) \<times> string list TSCEChatCompletionClient" where
  "example_create_stream call self ms \<equiv>
     create_stream call self ms ([] :: unit list) (None :: unit option)
       (Map.empty :: string \<rightharpoonup> unit) (None :: unit option)"

section \<open>Properties\<close>

subsection \<open>The message loop\<close>

lemma foldl_convert_step:
  "foldl convert_step acc ms = acc @ concat (map (convert_step []) ms)"
proof (induction ms arbitrary: acc)
  case Nil
  show ?case by simp
next
  case (Cons m ms)
  have "convert_step acc m = acc @ convert_step [] m"
    by (cases m) (simp_all split: str_or.splits)
  with Cons show ?case by simp
qed

lemma convert_messages_steps:
  "convert_messages ms = concat (map (convert_step []) ms)"
  by (simp add: convert_messages_def foldl_convert_step [of "[]"])

lemma convert_messages_append:
  "convert_messages (xs @ ys) = convert_messages xs @ convert_messages ys"
  by (simp add: convert_messages_steps)

lemma convert_messages_Cons:
  "convert_messages (m # ms) = convert_step [] m @ convert_messages ms"
  by (simp add: convert_messages_steps)

lemma convert_messages_Nil: "convert_messages [] = []"
  by (simp add: convert_messages_def)

lemma length_convert_step: "length (convert_step [] m) \<le> 1"
  by (cases m) (simp_all split: str_or.splits)

lemma length_convert_messages: "length (convert_messages ms) \<le> length ms"
proof (induction ms)
  case Nil
  show ?case by (simp add: convert_messages_Nil)
next
  case (Cons m ms)
  with length_convert_step [of m] show ?case
    by (simp add: convert_messages_Cons)
qed

lemma length_convert_messages_dropped:
  "AssistantMessage (Other x) \<in> set ms \<Longrightarrow> length (convert_messages ms) < length ms"
proof -
  assume "AssistantMessage (Other x) \<in> set ms"
  then obtain xs ys where ms: "ms = xs @ AssistantMessage (Other x) # ys"
    by (auto simp: in_set_conv_decomp)
  have "length (convert_messages ms) = length (convert_messages xs) + length (convert_messages ys)"
    by (simp add: ms convert_messages_append convert_messages_Cons)
  also have "\<dots> \<le> length xs + length ys"
    using length_convert_messages [of xs] length_convert_messages [of ys] by arith
  also have "\<dots> < length ms"
    by (simp add: ms)
  finally show ?thesis .
qed

subsection \<open>Splitting and joining\<close>

lemma split_from_tokens:
  "\<forall>c \<in> set cur. \<not> isspace c \<Longrightarrow> t \<in> set (split_from cur s) \<Longrightarrow> t \<noteq> [] \<and> (\<forall>c \<in> set t. \<not> isspace c)"
proof (induction s arbitrary: cur t)
  case Nil
  then show ?case by (simp split: if_splits)
next
  case (Cons c cs)
  show ?case
  proof (cases "isspace c")
    case True
    with Cons.prems have "t = cur \<and> cur \<noteq> [] \<or> t \<in> set (split_from [] cs)"
      by (simp split: if_splits)
    then show ?thesis
      using Cons.prems(1) Cons.IH [of "[]" t] by auto
  next
    case False
    with Cons.prems have "t \<in> set (split_from (cur @ [c]) cs)" by simp
    moreover from False Cons.prems(1) have "\<forall>c \<in> set (cur @ [c]). \<not> isspace c" by simp
    ultimately show ?thesis using Cons.IH [of "cur @ [c]" t] by blast
  qed
qed

lemma split_from_nonspace:
  "\<forall>c \<in> set t. \<not> isspace c \<Longrightarrow> split_from cur (t @ s) = split_from (cur @ t) s"
  by (induction t arbitrary: cur) simp_all

lemma split_join:
  "\<forall>t \<in> set ts. t \<noteq> [] \<and> (\<forall>c \<in> set t. \<not> isspace c) \<Longrightarrow> split (join '' '' ts) = ts"
proof (induction "'' ''" ts rule: join.induct)
  case 1
  show ?case by (simp add: split_def)
next
  case (2 t)
  then show ?case
    using split_from_nonspace [of t "[]" "[]"] by (simp add: split_def)
next
  case (3 t u us)
  have sp: "isspace CHR '' ''" by (simp add: isspace_def)
  from 3 have "split_from [] (t @ '' '' @ join '' '' (u # us)) = split_from t ('' '' @ join '' '' (u # us))"
    using split_from_nonspace [of t "[]"] by simp
  also have "\<dots> = t # split_from [] (join '' '' (u # us))"
    using 3 sp by simp
  finally show ?case using 3 by (simp add: split_def)
qed

lemma split_join_split: "split (join '' '' (split s)) = split s"
  by (rule split_join) (use split_from_tokens [of "[]" _ s] in \<open>auto simp: split_def\<close>)

lemma concat_spec_chunks: "concat (spec_chunks ts) = join '' '' ts"
  by (induction ts rule: spec_chunks.induct) simp_all

lemma str_items_map: "str_items (map StrItem ts @ [ResultItem r]) = ts"
  by (induction ts) simp_all

lemma enumerate_chunks:
  "map (\<lambda>(i, token). if int i < int (k + length ts) - 1 then StrItem (token @ '' '') else StrItem token)
       (enumerate k ts) = map StrItem (spec_chunks ts)"
proof (induction ts arbitrary: k rule: spec_chunks.induct)
  case 1
  show ?case by simp
next
  case (2 t)
  show ?case by simp
next
  case (3 t u us)
  from 3 [of "Suc k"] show ?case by simp
qed

subsection \<open>What \<^verbatim>\<open>create\<close> does on each outcome of the harness\<close>

lemma create_Inr:
  "call (self_tsce self) (convert_messages ms) = (Inr reply, h) \<Longrightarrow>
   create call self ms tools js xs ct =
     (Inr \<lparr> finish_reason = ''stop'', content = reply_content reply,
            usage = \<lparr> prompt_tokens = 0,
                      completion_tokens = int (length (split (reply_content reply))) \<rparr>,
            cached = False \<rparr>,
      self\<lparr> self_tsce := h,
            self_cur_usage := \<lparr> prompt_tokens = 0,
                      completion_tokens = int (length (split (reply_content reply))) \<rparr>,
            self_total_usage := \<lparr> prompt_tokens = prompt_tokens (self_total_usage self) + 0,
                      completion_tokens = completion_tokens (self_total_usage self)
                         + int (length (split (reply_content reply))) \<rparr> \<rparr>)"
  by (simp add: create_def Let_def)

lemma create_Inl:
  "call (self_tsce self) (convert_messages ms) = (Inl e, h) \<Longrightarrow>
   create call self ms tools js xs ct = (Inl (coroutine_raise e), self\<lparr> self_tsce := h \<rparr>)"
  by (simp add: create_def Let_def)

lemma create_cases:
  obtains (raised) e h where "call (self_tsce self) (convert_messages ms) = (Inl e, h)"
  | (returned) reply h where "call (self_tsce self) (convert_messages ms) = (Inr reply, h)"
  by (cases "call (self_tsce self) (convert_messages ms)"; case_tac a) auto

lemma create_result:
  assumes "create call self ms tools js xs ct = (Inr result, self')"
  obtains reply h where "call (self_tsce self) (convert_messages ms) = (Inr reply, h)"
proof (cases call self ms rule: create_cases)
  case (raised e h)
  from create_Inl [of call self ms e h tools js xs ct, OF this] assms show ?thesis by simp
next
  case (returned reply h)
  then show ?thesis by (rule that)
qed

lemma create_total_usage:
  assumes "create call self ms tools js xs ct = (Inr result, self')"
  shows "prompt_tokens (total_usage self') =
           prompt_tokens (total_usage self) + prompt_tokens (usage result)"
    and "completion_tokens (total_usage self') =
           completion_tokens (total_usage self) + completion_tokens (usage result)"
proof -
  from assms obtain reply h where "call (self_tsce self) (convert_messages ms) = (Inr reply, h)"
    by (rule create_result)
  from create_Inr [of call self ms reply h tools js xs ct, OF this] assms
  show "prompt_tokens (total_usage self') =
          prompt_tokens (total_usage self) + prompt_tokens (usage result)"
    and "completion_tokens (total_usage self') =
          completion_tokens (total_usage self) + completion_tokens (usage result)"
    by (auto simp: total_usage_def)
qed

subsection \<open>The example, evaluated\<close>

lemma split_Hello_there: "split ''Hello there'' = [''Hello'', ''there'']"
  by (simp add: split_def isspace_def)

lemma split_a_b: "split ''a  b'' = [''a'', ''b'']"
  by (simp add: split_def isspace_def)

lemma convert_example_messages:
  "convert_messages example_messages =
     [[''role'' \<mapsto> ''system'', ''content'' \<mapsto> ''Be terse''],
      [''role'' \<mapsto> ''user'', ''content'' \<mapsto> ''Hi'']]"
  by (simp add: convert_messages_def example_messages_def)

lemma create_example:
  "example_create scripted_call example_client example_messages =
     (Inr \<lparr> finish_reason = ''stop'', content = ''Hello there'',
            usage = \<lparr> prompt_tokens = 0, completion_tokens = 2 \<rparr>, cached = False \<rparr>,
      example_client
        \<lparr> self_tsce := [''a  b''],
          self_cur_usage := \<lparr> prompt_tokens = 0, completion_tokens = 2 \<rparr>,
          self_total_usage := \<lparr> prompt_tokens = 0, completion_tokens = 2 \<rparr> \<rparr>)"
  by (simp add: create_def example_client_def init_def scripted_TSCEChat_def split_Hello_there)

lemma create_example_again:
  "example_create scripted_call
     (example_client
        \<lparr> self_tsce := [''a  b''],
          self_cur_usage := \<lparr> prompt_tokens = 0, completion_tokens = 2 \<rparr>,
          self_total_usage := \<lparr> prompt_tokens = 0, completion_tokens = 2 \<rparr> \<rparr>)
     example_messages =
     (Inr \<lparr> finish_reason = ''stop'', content = ''a  b'',
            usage = \<lparr> prompt_tokens = 0, completion_tokens = 2 \<rparr>, cached = False \<rparr>,
      example_client
        \<lparr> self_tsce := [],
          self_cur_usage := \<lparr> prompt_tokens = 0, completion_tokens = 2 \<rparr>,
          self_total_usage := \<lparr> prompt_tokens = 0, completion_tokens = 4 \<rparr> \<rparr>)"
  by (simp add: create_def example_client_def init_def scripted_TSCEChat_def split_a_b)

section \<open>The claims\<close>

subsection \<open>The message normalizer\<close>

text \<open>
  C2. For every input sequence the normalizer keeps the order of the messages that
  survive: its output is the concatenation, in the order of the input, of what each
  message yields alone, which is at most one pair. A tool-result message yields no
  pair, alone or at any place of a sequence.
\<close>

theorem convert_messages_order_tool_results:
  "convert_messages ms = concat (map (\<lambda>m. convert_messages [m]) ms)
   \<and> length (convert_messages [m]) \<le> 1
   \<and> convert_messages [FunctionExecutionResultMessage r] = []
   \<and> convert_messages (xs @ FunctionExecutionResultMessage r # ys) = convert_messages (xs @ ys)"
  using length_convert_step [of m]
  by (simp add: convert_messages_steps)

text \<open>
  C3. An assistant message whose content is not a string yields no pair at all: a
  sequence that contains one has an output strictly shorter than the input, and the
  output is that of the sequence without the message. An assistant message whose
  content is a string yields the pair with role \<^verbatim>\<open>assistant\<close> and that content, at its
  place.
\<close>

theorem convert_messages_assistant:
  "(AssistantMessage (Other x) \<in> set ms \<longrightarrow> length (convert_messages ms) < length ms)
   \<and> convert_messages (xs @ AssistantMessage (Other x) # ys) = convert_messages (xs @ ys)
   \<and> convert_messages (xs @ AssistantMessage (Str s) # ys) =
       convert_messages xs @ [[''role'' \<mapsto> ''assistant'', ''content'' \<mapsto> s]]
         @ convert_messages ys"
  using length_convert_messages_dropped [of x ms]
  by (simp add: convert_messages_steps)

theorem convert_messages_assistant_witness:
  "AssistantMessage (Other ()) \<in> set (example_messages @ [AssistantMessage (Other ())])
   \<and> length (convert_messages (example_messages @ [AssistantMessage (Other ())])) = 2
   \<and> length (example_messages @ [AssistantMessage (Other ())]) = 3"
  using convert_messages_assistant
    [of "()" "example_messages @ [AssistantMessage (Other ())]" example_messages "[]" "[]"]
  by (simp add: convert_example_messages) (simp add: example_messages_def)

text \<open>
  C7. A system message yields the pair with role \<^verbatim>\<open>system\<close> and its content as it
  is; a user message yields the pair with role \<^verbatim>\<open>user\<close> and its content when the
  content is a string, and with the empty string otherwise; each at the place of the
  message.
\<close>

theorem convert_messages_system_user:
  "convert_messages (xs @ SystemMessage c # ys) =
       convert_messages xs @ [[''role'' \<mapsto> ''system'', ''content'' \<mapsto> c]]
         @ convert_messages ys
   \<and> convert_messages (xs @ UserMessage (Str s) # ys) =
       convert_messages xs @ [[''role'' \<mapsto> ''user'', ''content'' \<mapsto> s]]
         @ convert_messages ys
   \<and> convert_messages (xs @ UserMessage (Other u) # ys) =
       convert_messages xs @ [[''role'' \<mapsto> ''user'', ''content'' \<mapsto> '''']]
         @ convert_messages ys"
  by (simp add: convert_messages_steps)

subsection \<open>\<^verbatim>\<open>create\<close>\<close>

text \<open>
  C4. Whenever the harness returns a reply, \<^verbatim>\<open>create\<close> returns a result whose content
  is the reply's text, whose completion-token count is the number of whitespace-separated
  tokens of that content, and whose prompt-token count is 0.
\<close>

theorem create_usage_counts:
  "call (self_tsce self) (convert_messages ms) = (Inr reply, h) \<Longrightarrow>
   \<exists>result self'. create call self ms tools js xs ct = (Inr result, self')
     \<and> content result = reply_content reply
     \<and> completion_tokens (usage result) = int (length (split (content result)))
     \<and> prompt_tokens (usage result) = 0"
  by (simp add: create_Inr)

theorem create_usage_counts_witness:
  "scripted_call (self_tsce example_client) (convert_messages example_messages) =
     (Inr \<lparr> reply_content = ''Hello there'' \<rparr>, [''a  b''])
   \<and> (\<exists>result self'.
         example_create scripted_call example_client example_messages = (Inr result, self')
       \<and> content result = ''Hello there''
       \<and> completion_tokens (usage result) = 2
       \<and> prompt_tokens (usage result) = 0)"
proof -
  have h: "scripted_call (self_tsce example_client) (convert_messages example_messages) =
     (Inr \<lparr> reply_content = ''Hello there'' \<rparr>, [''a  b''])"
    by (simp add: example_client_def init_def scripted_TSCEChat_def)
  from create_usage_counts
    [of scripted_call example_client example_messages _ _
        "[] :: unit list" "None :: unit option" "Map.empty :: string \<rightharpoonup> unit"
        "None :: unit option", OF h]
  obtain result self' where
    "example_create scripted_call example_client example_messages = (Inr result, self')"
    "content result = ''Hello there''"
    "completion_tokens (usage result) = int (length (split (content result)))"
    "prompt_tokens (usage result) = 0"
    by auto
  then show ?thesis using h by (simp add: split_Hello_there)
qed

text \<open>
  C6. Whenever the harness returns a reply, the result \<^verbatim>\<open>create\<close> returns has the
  finish reason \<^verbatim>\<open>stop\<close> and is not cached.
\<close>

theorem create_finish_reason_cached:
  "call (self_tsce self) (convert_messages ms) = (Inr reply, h) \<Longrightarrow>
   \<exists>result self'. create call self ms tools js xs ct = (Inr result, self')
     \<and> finish_reason result = ''stop'' \<and> cached result = False"
  by (simp add: create_Inr)

theorem create_finish_reason_cached_witness:
  "scripted_call (self_tsce example_client) (convert_messages example_messages) =
     (Inr \<lparr> reply_content = ''Hello there'' \<rparr>, [''a  b''])
   \<and> (\<exists>result self'.
         example_create scripted_call example_client example_messages = (Inr result, self')
       \<and> finish_reason result = ''stop'' \<and> \<not> cached result)"
proof -
  have h: "scripted_call (self_tsce example_client) (convert_messages example_messages) =
     (Inr \<lparr> reply_content = ''Hello there'' \<rparr>, [''a  b''])"
    by (simp add: example_client_def init_def scripted_TSCEChat_def)
  from create_finish_reason_cached
    [of scripted_call example_client example_messages _ _
        "[] :: unit list" "None :: unit option" "Map.empty :: string \<rightharpoonup> unit"
        "None :: unit option", OF h]
  show ?thesis using h by simp
qed

text \<open>
  C5. After two successful calls of \<^verbatim>\<open>create\<close> in a row on a fresh client, the total
  usage is the sum of the usages of the two results, counter by counter.
\<close>

theorem total_usage_two_creates:
  assumes "create call (init TSCEChat model) ms1 tools1 js1 xs1 ct1 = (Inr result1, self1)"
    and "create call self1 ms2 tools2 js2 xs2 ct2 = (Inr result2, self2)"
  shows "prompt_tokens (total_usage self2) =
           prompt_tokens (usage result1) + prompt_tokens (usage result2)
    \<and> completion_tokens (total_usage self2) =
           completion_tokens (usage result1) + completion_tokens (usage result2)"
  using create_total_usage [OF assms(1)] create_total_usage [OF assms(2)]
  by (simp add: total_usage_def init_def)

theorem total_usage_two_creates_witness:
  "example_create scripted_call (init (scripted_TSCEChat [''Hello there'', ''a  b'']) None)
     example_messages =
     (Inr \<lparr> finish_reason = ''stop'', content = ''Hello there'',
            usage = \<lparr> prompt_tokens = 0, completion_tokens = 2 \<rparr>, cached = False \<rparr>,
      example_client
        \<lparr> self_tsce := [''a  b''],
          self_cur_usage := \<lparr> prompt_tokens = 0, completion_tokens = 2 \<rparr>,
          self_total_usage := \<lparr> prompt_tokens = 0, completion_tokens = 2 \<rparr> \<rparr>)
   \<and> example_create scripted_call
       (example_client
          \<lparr> self_tsce := [''a  b''],
            self_cur_usage := \<lparr> prompt_tokens = 0, completion_tokens = 2 \<rparr>,
            self_total_usage := \<lparr> prompt_tokens = 0, completion_tokens = 2 \<rparr> \<rparr>)
       example_messages =
     (Inr \<lparr> finish_reason = ''stop'', content = ''a  b'',
            usage = \<lparr> prompt_tokens = 0, completion_tokens = 2 \<rparr>, cached = False \<rparr>,
      example_client
        \<lparr> self_tsce := [],
          self_cur_usage := \<lparr> prompt_tokens = 0, completion_tokens = 2 \<rparr>,
          self_total_usage := \<lparr> prompt_tokens = 0, completion_tokens = 4 \<rparr> \<rparr>)
   \<and> prompt_tokens (total_usage (example_client
        \<lparr> self_tsce := [],
          self_cur_usage := \<lparr> prompt_tokens = 0, completion_tokens = 2 \<rparr>,
          self_total_usage := \<lparr> prompt_tokens = 0, completion_tokens = 4 \<rparr> \<rparr>)) = 0 + 0
   \<and> completion_tokens (total_usage (example_client
        \<lparr> self_tsce := [],
          self_cur_usage := \<lparr> prompt_tokens = 0, completion_tokens = 2 \<rparr>,
          self_total_usage := \<lparr> prompt_tokens = 0, completion_tokens = 4 \<rparr> \<rparr>)) = 2 + 2"
proof -
  have h: "example_create scripted_call
       (init (scripted_TSCEChat [''Hello there'', ''a  b'']) None) example_messages =
     (Inr \<lparr> finish_reason = ''stop'', content = ''Hello there'',
            usage = \<lparr> prompt_tokens = 0, completion_tokens = 2 \<rparr>, cached = False \<rparr>,
      example_client
        \<lparr> self_tsce := [''a  b''],
          self_cur_usage := \<lparr> prompt_tokens = 0, completion_tokens = 2 \<rparr>,
          self_total_usage := \<lparr> prompt_tokens = 0, completion_tokens = 2 \<rparr> \<rparr>)"
    by (subst example_client_def [symmetric]) (rule create_example)
  from total_usage_two_creates [OF h create_example_again] h create_example_again
  show ?thesis by simp
qed

text \<open>
  C8. The keyword arguments \<^verbatim>\<open>tools\<close>, \<^verbatim>\<open>json_output\<close>, \<^verbatim>\<open>extra_create_args\<close> and
  \<^verbatim>\<open>cancellation_token\<close> are never consulted: two calls of \<^verbatim>\<open>create\<close> with the same
  harness, client and messages give the same result and leave the same client, usage
  counters included, whatever these four arguments are.
\<close>

theorem create_ignores_keyword_arguments:
  "create call self ms tools1 js1 xs1 ct1 = create call self ms tools2 js2 xs2 ct2"
  by (simp add: create_def)

text \<open>
  C10. When the call of the harness raises, \<^verbatim>\<open>create\<close> raises too, and the current
  and total usage of the client are what they were before the call. The exception
  \<^verbatim>\<open>create\<close> raises is the harness's own, except that a \<^verbatim>\<open>StopIteration\<close> leaves
  the coroutine as a \<^verbatim>\<open>RuntimeError\<close>.
\<close>

theorem create_raise_keeps_usage:
  "call (self_tsce self) (convert_messages ms) = (Inl e, h) \<Longrightarrow>
   \<exists>self'. create call self ms tools js xs ct = (Inl (coroutine_raise e), self')
     \<and> actual_usage self' = actual_usage self \<and> total_usage self' = total_usage self"
  by (simp add: create_Inl actual_usage_def total_usage_def)

theorem create_raise_keeps_usage_witness:
  "scripted_call
     (self_tsce (example_client
        \<lparr> self_tsce := [],
          self_cur_usage := \<lparr> prompt_tokens = 0, completion_tokens = 2 \<rparr>,
          self_total_usage := \<lparr> prompt_tokens = 0, completion_tokens = 4 \<rparr> \<rparr>))
     (convert_messages example_messages) = (Inl StopIteration, [])
   \<and> (\<exists>self'.
        example_create scripted_call
          (example_client
            \<lparr> self_tsce := [],
              self_cur_usage := \<lparr> prompt_tokens = 0, completion_tokens = 2 \<rparr>,
              self_total_usage := \<lparr> prompt_tokens = 0, completion_tokens = 4 \<rparr> \<rparr>)
          example_messages = (Inl (RuntimeError ''coroutine raised StopIteration''), self')
      \<and> actual_usage self' = \<lparr> prompt_tokens = 0, completion_tokens = 2 \<rparr>
      \<and> total_usage self' = \<lparr> prompt_tokens = 0, completion_tokens = 4 \<rparr>)"
proof -
  let ?self = "example_client
        \<lparr> self_tsce := [],
          self_cur_usage := \<lparr> prompt_tokens = 0, completion_tokens = 2 \<rparr>,
          self_total_usage := \<lparr> prompt_tokens = 0, completion_tokens = 4 \<rparr> \<rparr>"
  have h: "scripted_call (self_tsce ?self) (convert_messages example_messages) =
     (Inl StopIteration, [])"
    by simp
  from create_raise_keeps_usage
    [of scripted_call ?self example_messages _ _
        "[] :: unit list" "None :: unit option" "Map.empty :: string \<rightharpoonup> unit"
        "None :: unit option", OF h]
  show ?thesis using h by (simp add: actual_usage_def total_usage_def)
qed

subsection \<open>\<^verbatim>\<open>create_stream\<close>\<close>

text \<open>
  C1, as the code has it. Whenever \<^verbatim>\<open>create\<close> returns a result, \<^verbatim>\<open>create_stream\<close> on
  the same arguments leaves the same client and yields one string for every
  whitespace-separated token of the result's content, each token but the last followed
  by one space and the last as it is, and then, as its last element, that result. The
  strings concatenated are the tokens joined by single spaces: a text with the same
  tokens as the content, equal to the content exactly when the content is its own
  tokens joined by single spaces.
\<close>

theorem create_stream_chunks_join:
  assumes "create call self ms tools js xs ct = (Inr result, self')"
  shows "\<exists>items. create_stream call self ms tools js xs ct = (Inr items, self')
    \<and> items = map StrItem (spec_chunks (split (content result))) @ [ResultItem result]
    \<and> last items = ResultItem result
    \<and> concat (str_items items) = join '' '' (split (content result))
    \<and> split (concat (str_items items)) = split (content result)
    \<and> (concat (str_items items) = content result
         \<longleftrightarrow> join '' '' (split (content result)) = content result)"
  using assms enumerate_chunks [of 0 "split (content result)"]
  by (simp add: create_stream_def str_items_map concat_spec_chunks split_join_split)

theorem create_stream_chunks_join_witness:
  "example_create scripted_call example_client example_messages =
     (Inr \<lparr> finish_reason = ''stop'', content = ''Hello there'',
            usage = \<lparr> prompt_tokens = 0, completion_tokens = 2 \<rparr>, cached = False \<rparr>,
      example_client
        \<lparr> self_tsce := [''a  b''],
          self_cur_usage := \<lparr> prompt_tokens = 0, completion_tokens = 2 \<rparr>,
          self_total_usage := \<lparr> prompt_tokens = 0, completion_tokens = 2 \<rparr> \<rparr>)
   \<and> example_create_stream scripted_call example_client example_messages =
     (Inr [StrItem ''Hello '', StrItem ''there'',
           ResultItem \<lparr> finish_reason = ''stop'', content = ''Hello there'',
             usage = \<lparr> prompt_tokens = 0, completion_tokens = 2 \<rparr>, cached = False \<rparr>],
      example_client
        \<lparr> self_tsce := [''a  b''],
          self_cur_usage := \<lparr> prompt_tokens = 0, completion_tokens = 2 \<rparr>,
          self_total_usage := \<lparr> prompt_tokens = 0, completion_tokens = 2 \<rparr> \<rparr>)"
  using create_stream_chunks_join [OF create_example] create_example
  by (simp add: split_Hello_there)

text \<open>
  C1 as it is stated fails where the content is not its tokens joined by single spaces.
  The harness answers \<^verbatim>\<open>a  b\<close>, with two spaces: the strings yielded are \<^verbatim>\<open>a \<close> and
  \<^verbatim>\<open>b\<close>, and their concatenation has one space.
\<close>

theorem create_stream_concat_counterexample:
  "example_create scripted_call (init (scripted_TSCEChat [''a  b'']) None) example_messages =
     (Inr \<lparr> finish_reason = ''stop'', content = ''a  b'',
            usage = \<lparr> prompt_tokens = 0, completion_tokens = 2 \<rparr>, cached = False \<rparr>,
      (init (scripted_TSCEChat [''a  b'']) None)
        \<lparr> self_tsce := [],
          self_cur_usage := \<lparr> prompt_tokens = 0, completion_tokens = 2 \<rparr>,
          self_total_usage := \<lparr> prompt_tokens = 0, completion_tokens = 2 \<rparr> \<rparr>)
   \<and> example_create_stream scripted_call (init (scripted_TSCEChat [''a  b'']) None)
       example_messages =
     (Inr [StrItem ''a '', StrItem ''b'',
           ResultItem \<lparr> finish_reason = ''stop'', content = ''a  b'',
             usage = \<lparr> prompt_tokens = 0, completion_tokens = 2 \<rparr>, cached = False \<rparr>],
      (init (scripted_TSCEChat [''a  b'']) None)
        \<lparr> self_tsce := [],
          self_cur_usage := \<lparr> prompt_tokens = 0, completion_tokens = 2 \<rparr>,
          self_total_usage := \<lparr> prompt_tokens = 0, completion_tokens = 2 \<rparr> \<rparr>)
   \<and> concat (str_items [StrItem ''a '', StrItem ''b'',
           ResultItem \<lparr> finish_reason = ''stop'', content = ''a  b'',
             usage = \<lparr> prompt_tokens = 0, completion_tokens = 2 \<rparr>, cached = False \<rparr>])
       = ''a b''
   \<and> ''a b'' \<noteq> content \<lparr> finish_reason = ''stop'', content = ''a  b'',
             usage = \<lparr> prompt_tokens = 0, completion_tokens = 2 \<rparr>, cached = False \<rparr>"
  by (simp add: create_stream_def create_def init_def scripted_TSCEChat_def split_a_b)

subsection \<open>Token counts\<close>

text \<open>
  C9. \<^verbatim>\<open>count_tokens\<close> and \<^verbatim>\<open>remaining_tokens\<close> return 0 for every message sequence
  and every sequence of tool descriptors.
\<close>

theorem count_tokens_remaining_tokens_zero:
  "count_tokens self ms tools = 0 \<and> remaining_tokens self ms tools = 0"
  by (simp add: count_tokens_def remaining_tokens_def)

end
